theory Spec2Isabelle
  imports Complex_Main "HOL-Library.Word" "HOL-Library.AList"
begin

section \<open>JavaScript values\<close>

text \<open>
  A JavaScript string is a sequence of UTF-16 code units; \<open>length\<close> counts code units
  and a regular expression without the \<open>u\<close> flag matches one code unit at a time.
  String literals of the source that are plain ASCII are written \<open>js ''...''\<close>.
\<close>

type_synonym code_unit = "16 word"
type_synonym jsstring = "code_unit list"

definition js :: "string \<Rightarrow> jsstring" where
  "js s = map (\<lambda>c. of_char c) s"

text \<open>
  A JavaScript number is a double. The finite ones are rationals; the model takes every
  rational as a finite number, and keeps \<open>NaN\<close> and the two infinities apart.
\<close>

datatype jsnumber = Fin rat | NaN | PosInfinity | NegInfinity

datatype jsvalue =
    JUndefined
  | JNull
  | JBool bool
  | JNumber jsnumber
  | JString jsstring
  | JArray "jsvalue list"
  | JObject "(jsstring \<times> jsvalue) list"

text \<open>
  \<open>data[key]\<close> on a plain object: the value of the first property of that name, and
  \<open>undefined\<close> when there is none.
\<close>

definition get_prop :: "(jsstring \<times> jsvalue) list \<Rightarrow> jsstring \<Rightarrow> jsvalue" where
  "get_prop props key = (case map_of props key of None \<Rightarrow> JUndefined | Some v \<Rightarrow> v)"

text \<open>\<open>key in data\<close>.\<close>

definition has_prop :: "(jsstring \<times> jsvalue) list \<Rightarrow> jsstring \<Rightarrow> bool" where
  "has_prop props key = (map_of props key \<noteq> None)"

text \<open>
  A Node process, as far as the configuration files can observe it: \<open>process.env\<close> and
  \<open>process.cwd()\<close>. Every value stored in \<open>process.env\<close> is a string; a variable that
  is not set reads as \<open>undefined\<close> (here \<open>None\<close>).
\<close>

record node_process =
  process_env :: "jsstring \<rightharpoonup> jsstring"
  process_cwd :: jsstring

text \<open>
  \<open>a || b\<close> on a value that is a string or \<open>undefined\<close>: the left operand is falsy exactly
  when it is \<open>undefined\<close> or the empty string.
\<close>

definition or_default :: "jsstring option \<Rightarrow> jsstring \<Rightarrow> jsstring" where
  "or_default v d = (case v of None \<Rightarrow> d | Some s \<Rightarrow> if s = [] then d else s)"

section \<open>Regular expressions\<close>

text \<open>
  The fragment of ECMAScript regular expressions that the guide uses, without flags:
  a pattern is a sequence of terms; \<open>.\<close> matches any code unit except the four line
  terminators, \<open>\d\<close> the ASCII digits, \<open>[a-z]\<close> a range of code units; \<open>x*\<close> is
  greedy with backtracking; \<open>(?=...)\<close> is a lookahead, which consumes nothing.
\<close>

datatype char_class = AnyChar | Digit | Range code_unit code_unit

datatype regex_term =
    StartAnchor
  | One char_class
  | Star char_class
  | Lookahead "regex_term list"

type_synonym regex = "regex_term list"

definition line_terminator :: "code_unit \<Rightarrow> bool" where
  "line_terminator c = (c = 0x000A \<or> c = 0x000D \<or> c = 0x2028 \<or> c = 0x2029)"

fun class_matches :: "char_class \<Rightarrow> code_unit \<Rightarrow> bool" where
  "class_matches AnyChar c = (\<not> line_terminator c)"
| "class_matches Digit c = (0x0030 \<le> c \<and> c \<le> 0x0039)"
| "class_matches (Range lo hi) c = (lo \<le> c \<and> c \<le> hi)"

text \<open>
  A match state is the index reached and the input that is left. Each function returns
  the states in which its pattern can end, in the order backtracking tries them.
\<close>

fun star_matches :: "char_class \<Rightarrow> nat \<Rightarrow> jsstring \<Rightarrow> (nat \<times> jsstring) list" where
  "star_matches cl i [] = [(i, [])]"
| "star_matches cl i (c # cs) =
     (if class_matches cl c then star_matches cl (Suc i) cs @ [(i, c # cs)] else [(i, c # cs)])"

fun match_term :: "regex_term \<Rightarrow> nat \<Rightarrow> jsstring \<Rightarrow> (nat \<times> jsstring) list"
  and match_seq :: "regex_term list \<Rightarrow> nat \<Rightarrow> jsstring \<Rightarrow> (nat \<times> jsstring) list" where
  "match_term StartAnchor i s = (if i = 0 then [(i, s)] else [])"
| "match_term (One cl) i s =
     (case s of [] \<Rightarrow> [] | c # cs \<Rightarrow> if class_matches cl c then [(Suc i, cs)] else [])"
| "match_term (Star cl) i s = star_matches cl i s"
| "match_term (Lookahead r) i s = (if match_seq r i s = [] then [] else [(i, s)])"
| "match_seq [] i s = [(i, s)]"
| "match_seq (t # ts) i s = concat (map (\<lambda>(j, s'). match_seq ts j s') (match_term t i s))"

text \<open>\<open>regex.test(s)\<close> with \<open>lastIndex = 0\<close>: is there a match starting at some index of \<open>s\<close>.\<close>

definition regex_test :: "regex \<Rightarrow> jsstring \<Rightarrow> bool" where
  "regex_test r s = list_ex (\<lambda>k. match_seq r k (drop k s) \<noteq> []) [0..<Suc (length s)]"

section \<open>Zod schemas\<close>

text \<open>
  The part of Zod 3 that the guide's schemas use. A check carries the custom message given
  in the source (\<open>None\<close> where the source gives none and the library's default text applies).
  The formats that the library tests with regular expressions of its own (\<open>email\<close>, \<open>uuid\<close>,
  \<open>datetime\<close>) are parameters of the model.
\<close>

record zod_formats =
  is_email :: "jsstring \<Rightarrow> bool"
  is_uuid :: "jsstring \<Rightarrow> bool"
  is_datetime :: "jsstring \<Rightarrow> bool"

datatype string_check =
    Email "jsstring option"
  | Uuid
  | Datetime
  | MinLength nat "jsstring option"
  | MaxLength nat "jsstring option"
  | Regex regex "jsstring option"

datatype number_check = IsInt | NumMin rat | NumMax rat

datatype zod_schema =
    ZString "string_check list"
  | ZNumber "number_check list"
  | ZBoolean
  | ZOptional zod_schema
  | ZObject "(jsstring \<times> zod_schema) list"

datatype issue_code = invalid_type | invalid_string | too_small | too_big

record zod_issue =
  issue_code :: issue_code
  issue_path :: "jsstring list"
  issue_message :: "jsstring option"

fun string_check_issue :: "zod_formats \<Rightarrow> jsstring \<Rightarrow> string_check \<Rightarrow> (issue_code \<times> jsstring option) option" where
  "string_check_issue fmt s (Email msg) = (if is_email fmt s then None else Some (invalid_string, msg))"
| "string_check_issue fmt s Uuid = (if is_uuid fmt s then None else Some (invalid_string, None))"
| "string_check_issue fmt s Datetime = (if is_datetime fmt s then None else Some (invalid_string, None))"
| "string_check_issue fmt s (MinLength n msg) = (if length s < n then Some (too_small, msg) else None)"
| "string_check_issue fmt s (MaxLength n msg) = (if length s > n then Some (too_big, msg) else None)"
| "string_check_issue fmt s (Regex r msg) = (if regex_test r s then None else Some (invalid_string, msg))"

text \<open>\<open>Number.isInteger\<close>, \<open><\<close> and \<open>>\<close> on numbers that are not \<open>NaN\<close>.\<close>

fun is_integer :: "jsnumber \<Rightarrow> bool" where
  "is_integer (Fin r) = (of_int \<lfloor>r\<rfloor> = r)"
| "is_integer _ = False"

fun number_less :: "jsnumber \<Rightarrow> rat \<Rightarrow> bool" where
  "number_less (Fin r) b = (r < b)"
| "number_less NegInfinity b = True"
| "number_less _ b = False"

fun number_greater :: "jsnumber \<Rightarrow> rat \<Rightarrow> bool" where
  "number_greater (Fin r) b = (r > b)"
| "number_greater PosInfinity b = True"
| "number_greater _ b = False"

fun number_check_issue :: "jsnumber \<Rightarrow> number_check \<Rightarrow> (issue_code \<times> jsstring option) option" where
  "number_check_issue n IsInt = (if is_integer n then None else Some (invalid_type, None))"
| "number_check_issue n (NumMin b) = (if number_less n b then Some (too_small, None) else None)"
| "number_check_issue n (NumMax b) = (if number_greater n b then Some (too_big, None) else None)"

definition issues_at :: "jsstring list \<Rightarrow> (issue_code \<times> jsstring option) option list \<Rightarrow> zod_issue list" where
  "issues_at p found =
     map (\<lambda>(c, m). \<lparr> issue_code = c, issue_path = p, issue_message = m \<rparr>) (List.map_filter id found)"

text \<open>
  The issues a schema raises on a value, at a path. A value of the wrong type raises one
  \<open>invalid_type\<close> issue and its checks do not run; the checks of a string or a number all
  run, in the order of the chain; an object asks each key of its shape in turn, reading
  \<open>data[key]\<close>, and ignores the keys it does not know (the default \<open>strip\<close> mode);
  \<open>optional\<close> accepts \<open>undefined\<close> and otherwise asks the inner schema.
\<close>

fun schema_issues :: "zod_formats \<Rightarrow> jsstring list \<Rightarrow> zod_schema \<Rightarrow> jsvalue \<Rightarrow> zod_issue list" where
  "schema_issues fmt p (ZString checks) v =
     (case v of
        JString s \<Rightarrow> issues_at p (map (string_check_issue fmt s) checks)
      | _ \<Rightarrow> issues_at p [Some (invalid_type, None)])"
| "schema_issues fmt p (ZNumber checks) v =
     (case v of
        JNumber n \<Rightarrow>
          (if n = NaN then issues_at p [Some (invalid_type, None)]
           else issues_at p (map (number_check_issue n) checks))
      | _ \<Rightarrow> issues_at p [Some (invalid_type, None)])"
| "schema_issues fmt p ZBoolean v =
     (case v of JBool b \<Rightarrow> [] | _ \<Rightarrow> issues_at p [Some (invalid_type, None)])"
| "schema_issues fmt p (ZOptional inner) v =
     (if v = JUndefined then [] else schema_issues fmt p inner v)"
| "schema_issues fmt p (ZObject shape) v =
     (case v of
        JObject props \<Rightarrow>
          concat (map (\<lambda>(key, s). schema_issues fmt (p @ [key]) s (get_prop props key)) shape)
      | _ \<Rightarrow> issues_at p [Some (invalid_type, None)])"

text \<open>
  The value a successful parse returns: the input itself, except that an object is rebuilt
  from the keys of the shape, keeping a key when its value is defined or the key is in the
  input.
\<close>

fun schema_output :: "zod_schema \<Rightarrow> jsvalue \<Rightarrow> jsvalue" where
  "schema_output (ZObject shape) v =
     (case v of
        JObject props \<Rightarrow>
          JObject (concat (map (\<lambda>(key, s).
             (let out = schema_output s (get_prop props key)
              in if out \<noteq> JUndefined \<or> has_prop props key then [(key, out)] else [])) shape))
      | _ \<Rightarrow> v)"
| "schema_output (ZOptional inner) v = (if v = JUndefined then JUndefined else schema_output inner v)"
| "schema_output s v = v"

text \<open>\<open>schema.safeParse(value)\<close>: the issues, or the parsed value when there are none.\<close>

definition safeParse :: "zod_formats \<Rightarrow> zod_schema \<Rightarrow> jsvalue \<Rightarrow> zod_issue list + jsvalue" where
  "safeParse fmt schema v =
     (case schema_issues fmt [] schema v of
        [] \<Rightarrow> Inr (schema_output schema v)
      | issues \<Rightarrow> Inl issues)"

text \<open>
  The object combinators, on the shape. \<open>pick\<close> walks the keys of its mask in the mask's
  order and keeps those that the shape has; \<open>extend\<close> (here \<open>extend_schema\<close>) and
  \<open>merge\<close> spread the second shape over the first (a key already there keeps its place
  and takes the new schema, a new key goes to the end); \<open>partial\<close> makes every key
  optional. They are methods of object schemas only; on any other schema the model leaves
  the schema as it is.
\<close>

fun pick :: "jsstring list \<Rightarrow> zod_schema \<Rightarrow> zod_schema" where
  "pick mask_keys (ZObject shape) =
     ZObject (List.map_filter (\<lambda>key. map_option (Pair key) (map_of shape key)) mask_keys)"
| "pick mask_keys s = s"

fun spread :: "(jsstring \<times> 'a) list \<Rightarrow> (jsstring \<times> 'a) list \<Rightarrow> (jsstring \<times> 'a) list" where
  "spread base [] = base"
| "spread base ((key, v) # rest) = spread (AList.update key v base) rest"

fun extend_schema :: "(jsstring \<times> zod_schema) list \<Rightarrow> zod_schema \<Rightarrow> zod_schema" where
  "extend_schema augmentation (ZObject shape) = ZObject (spread shape augmentation)"
| "extend_schema augmentation s = s"

fun merge :: "zod_schema \<Rightarrow> zod_schema \<Rightarrow> zod_schema" where
  "merge (ZObject merging) (ZObject shape) = ZObject (spread shape merging)"
| "merge merging s = s"

fun partial :: "zod_schema \<Rightarrow> zod_schema" where
  "partial (ZObject shape) = ZObject (map (\<lambda>(key, s). (key, ZOptional s)) shape)"
| "partial s = s"

text \<open>The keys of an object schema, in order.\<close>

fun shape_keys :: "zod_schema \<Rightarrow> jsstring list" where
  "shape_keys (ZObject shape) = map fst shape"
| "shape_keys s = []"

section \<open>The configuration files\<close>

subsection \<open>apps/mobile/babel.config.js\<close>

record dotenv_options =
  envName :: jsstring
  moduleName :: jsstring
  path :: jsstring
  safe :: bool
  allowUndefined :: bool
  verbose :: bool

record babel_config =
  presets :: "jsstring list"
  plugins :: "(jsstring \<times> dotenv_options) list"

text \<open>The value of \<open>module.exports\<close>, as a function of the process that loads the file.\<close>

definition babel_config_exports :: "node_process \<Rightarrow> babel_config" where
  "babel_config_exports p =
     \<lparr> presets = [js ''module:@react-native/babel-preset''],
       plugins =
         [ (js ''module:react-native-dotenv'',
            \<lparr> envName = js ''APP_ENV'',
              moduleName = js ''@env'',
              path = or_default (process_env p (js ''ENV_FILE'')) (js ''.env.dev''),
              safe = False,
              allowUndefined = True,
              verbose = False \<rparr>) ] \<rparr>"

text \<open>The options object handed to the plugin of the given name, if the plugin is listed.\<close>

definition plugin_options :: "babel_config \<Rightarrow> jsstring \<Rightarrow> dotenv_options option" where
  "plugin_options cfg name = map_of (plugins cfg) name"

subsection \<open>Node's \<open>path.resolve\<close> (POSIX)\<close>

definition slash :: code_unit where
  "slash = 0x002F"

fun split_path :: "jsstring \<Rightarrow> jsstring list" where
  "split_path [] = [[]]"
| "split_path (c # cs) =
     (if c = slash then [] # split_path cs
      else (case split_path cs of seg # segs \<Rightarrow> (c # seg) # segs | [] \<Rightarrow> [[c]]))"

fun join_path :: "jsstring list \<Rightarrow> jsstring" where
  "join_path [] = []"
| "join_path [seg] = seg"
| "join_path (seg # segs) = seg @ slash # join_path segs"

text \<open>
  \<open>normalizeString\<close>, segment by segment; \<open>res\<close> holds the segments kept so far, last one
  first. An empty segment and \<open>.\<close> are dropped; \<open>..\<close> removes the last segment kept, and
  where there is none (or it is \<open>..\<close> itself) it is kept only if \<open>allowAboveRoot\<close>.
\<close>

fun normalize_segments :: "bool \<Rightarrow> jsstring list \<Rightarrow> jsstring list \<Rightarrow> jsstring list" where
  "normalize_segments allowAboveRoot res [] = rev res"
| "normalize_segments allowAboveRoot res (seg # segs) =
     (if seg = [] \<or> seg = js ''.'' then normalize_segments allowAboveRoot res segs
      else if seg = js ''..'' then
        (if res \<noteq> [] \<and> hd res \<noteq> js ''..'' then normalize_segments allowAboveRoot (tl res) segs
         else if allowAboveRoot then normalize_segments allowAboveRoot (js ''..'' # res) segs
         else normalize_segments allowAboveRoot res segs)
      else normalize_segments allowAboveRoot (seg # res) segs)"

definition normalizeString :: "jsstring \<Rightarrow> bool \<Rightarrow> jsstring" where
  "normalizeString p allowAboveRoot = join_path (normalize_segments allowAboveRoot [] (split_path p))"

text \<open>
  The loop of \<open>path.resolve\<close> walks its arguments from the right, then the working
  directory, and stops at the first absolute one; empty arguments are skipped.
\<close>

fun resolve_loop :: "jsstring list \<Rightarrow> jsstring \<Rightarrow> jsstring \<times> bool" where
  "resolve_loop [] resolvedPath = (resolvedPath, False)"
| "resolve_loop (arg # args) resolvedPath =
     (if arg = [] then resolve_loop args resolvedPath
      else if hd arg = slash then (arg @ slash # resolvedPath, True)
      else resolve_loop args (arg @ slash # resolvedPath))"

definition path_resolve :: "jsstring \<Rightarrow> jsstring list \<Rightarrow> jsstring" where
  "path_resolve cwd args =
     (case resolve_loop (rev args @ [cwd]) [] of
        (resolvedPath, resolvedAbsolute) \<Rightarrow>
          (let normalized = normalizeString resolvedPath (\<not> resolvedAbsolute)
           in if resolvedAbsolute then slash # normalized
              else if normalized \<noteq> [] then normalized else js ''.''))"

subsection \<open>The Metro configuration (apps/mobile/metro.config.js)\<close>

record metro_resolver =
  nodeModulesPaths :: "jsstring list"

record metro_config =
  watchFolders :: "jsstring list"
  resolver :: metro_resolver

definition monorepoRoot :: "node_process \<Rightarrow> jsstring \<Rightarrow> jsstring" where
  "monorepoRoot p dirname = path_resolve (process_cwd p) [dirname, js ''../..'']"

text \<open>The object \<open>config\<close>, for a file that lies in the directory \<open>dirname\<close>.\<close>

definition metro_config :: "node_process \<Rightarrow> jsstring \<Rightarrow> metro_config" where
  "metro_config p dirname =
     \<lparr> watchFolders =
         [ monorepoRoot p dirname,
           monorepoRoot p dirname @ js ''/packages/ui'',
           monorepoRoot p dirname @ js ''/packages/ts-config'' ],
       resolver =
         \<lparr> nodeModulesPaths =
             [ path_resolve (process_cwd p) [dirname, js ''node_modules''],
               path_resolve (process_cwd p) [monorepoRoot p dirname, js ''node_modules''] ] \<rparr> \<rparr>"

text \<open>
  \<open>module.exports\<close>; \<open>mergeConfig\<close> and \<open>getDefaultConfig\<close> belong to
  \<open>@react-native/metro-config\<close> and are parameters.
\<close>

definition metro_config_exports ::
  "('c \<Rightarrow> metro_config \<Rightarrow> 'c) \<Rightarrow> (node_process \<Rightarrow> jsstring \<Rightarrow> 'c) \<Rightarrow> node_process \<Rightarrow> jsstring \<Rightarrow> 'c" where
  "metro_config_exports mergeConfig getDefaultConfig p dirname =
     mergeConfig (getDefaultConfig p dirname) (metro_config p dirname)"

subsection \<open>The ESLint flat configuration (eslint.config.mjs)\<close>

text \<open>The configurations that the file imports, and \<open>defineConfig\<close>, are parameters.\<close>

record 'c eslint_imports =
  reactHooks_configs_flat_recommended :: 'c
  reactNativeConfig :: 'c
  eslintConfigPrettier :: 'c
  react_configs_flat_recommended :: 'c

definition eslint_config_list :: "'c eslint_imports \<Rightarrow> 'c list" where
  "eslint_config_list imports =
     [ reactNativeConfig imports,
       reactHooks_configs_flat_recommended imports,
       eslintConfigPrettier imports,
       react_configs_flat_recommended imports ]"

definition eslint_config_default ::
  "('c list \<Rightarrow> 'r) \<Rightarrow> 'c eslint_imports \<Rightarrow> node_process \<Rightarrow> 'r" where
  "eslint_config_default defineConfig imports p = defineConfig (eslint_config_list imports)"

subsection \<open>The Prettier configuration (prettier.config.js)\<close>

record prettier_config =
  prettier_plugins :: "jsstring list"
  endOfLine :: jsstring
  trailingComma :: jsstring
  tabWidth :: nat
  semi :: bool
  singleQuote :: bool
  arrowParens :: jsstring
  importOrderSortSpecifiers :: bool

definition prettier_config_default :: "node_process \<Rightarrow> prettier_config" where
  "prettier_config_default p =
     \<lparr> prettier_plugins =
         [ js ''prettier-plugin-css-order'',
           js ''prettier-plugin-organize-attributes'',
           js ''@trivago/prettier-plugin-sort-imports'',
           js ''prettier-plugin-style-order'',
           js ''prettier-plugin-tailwindcss'' ],
       endOfLine = js ''lf'',
       trailingComma = js ''es5'',
       tabWidth = 4,
       semi = False,
       singleQuote = True,
       arrowParens = js ''avoid'',
       importOrderSortSpecifiers = True \<rparr>"

section \<open>The code of ZOD_GUIDE.md\<close>

subsection \<open>The messages that are not ASCII, as UTF-16 code units\<close>

definition msg_email_format :: jsstring where
  "msg_email_format = [0xC62C, 0xBC14, 0xB978, 0x0020, 0xC774, 0xBA54, 0xC77C, 0x0020, 0xD615,
     0xC2DD, 0xC774, 0x0020, 0xC544, 0xB2D9, 0xB2C8, 0xB2E4, 0x002E]"

definition msg_name_min :: jsstring where
  "msg_name_min = [0xC774, 0xB984, 0xC740, 0x0020, 0xCD5C, 0xC18C, 0x0020, 0x0032, 0xC790,
     0x0020, 0xC774, 0xC0C1, 0xC774, 0xC5B4, 0xC57C, 0x0020, 0xD569, 0xB2C8, 0xB2E4, 0x002E]"

definition msg_name_max :: jsstring where
  "msg_name_max = [0xC774, 0xB984, 0xC740, 0x0020, 0xCD5C, 0xB300, 0x0020, 0x0035, 0x0030,
     0xC790, 0xAE4C, 0xC9C0, 0x0020, 0xAC00, 0xB2A5, 0xD569, 0xB2C8, 0xB2E4, 0x002E]"

definition msg_password_min :: jsstring where
  "msg_password_min = [0xBE44, 0xBC00, 0xBC88, 0xD638, 0xB294, 0x0020, 0xCD5C, 0xC18C, 0x0020,
     0x0038, 0xC790, 0x0020, 0xC774, 0xC0C1, 0xC774, 0xC5B4, 0xC57C, 0x0020, 0xD569, 0xB2C8,
     0xB2E4, 0x002E]"

definition msg_password_regex :: jsstring where
  "msg_password_regex = [0xBE44, 0xBC00, 0xBC88, 0xD638, 0xB294, 0x0020, 0xB300, 0xC18C, 0xBB38,
     0xC790, 0xC640, 0x0020, 0xC22B, 0xC790, 0xB97C, 0x0020, 0xD3EC, 0xD568, 0xD574, 0xC57C,
     0x0020, 0xD569, 0xB2C8, 0xB2E4, 0x002E]"





subsection \<open>apps/backend/src/modules/users/dto/create-user.dto.ts\<close>

text \<open>The pattern \<^verbatim>\<open>/^(?=.*[a-z])(?=.*[A-Z])(?=.*\d)/\<close>.\<close>

definition password_regex :: regex where
  "password_regex =
     [ StartAnchor,
       Lookahead [Star AnyChar, One (Range 0x0061 0x007A)],
       Lookahead [Star AnyChar, One (Range 0x0041 0x005A)],
       Lookahead [Star AnyChar, One Digit] ]"

definition createUserSchema :: zod_schema where
  "createUserSchema = ZObject
     [ (js ''email'', ZString [Email (Some msg_email_format)]),
       (js ''name'', ZString [MinLength 2 (Some msg_name_min), MaxLength 50 (Some msg_name_max)]),
       (js ''password'',
          ZString [MinLength 8 (Some msg_password_min), Regex password_regex (Some msg_password_regex)]),
       (js ''age'', ZOptional (ZNumber [IsInt, NumMin 0, NumMax 150])) ]"

subsection \<open>apps/mobile/src/api/schemas/user.schema.ts\<close>

definition userSchema_mobile :: zod_schema where
  "userSchema_mobile = ZObject
     [ (js ''id'', ZString []),
       (js ''email'', ZString [Email None]),
       (js ''name'', ZString []),
       (js ''createdAt'', ZString [Datetime]) ]"


subsection \<open>packages/shared-types/src/schemas/user.schema.ts\<close>

definition userSchema_shared :: zod_schema where
  "userSchema_shared = ZObject
     [ (js ''id'', ZString [Uuid]),
       (js ''email'', ZString [Email None]),
       (js ''name'', ZString [MinLength 2 None, MaxLength 50 None]),
       (js ''createdAt'', ZString [Datetime]),
       (js ''updatedAt'', ZString [Datetime]) ]"

definition createUserSchema_shared :: zod_schema where
  "createUserSchema_shared =
     extend_schema [(js ''password'', ZString [MinLength 8 None])]
       (pick [js ''email'', js ''name''] userSchema_shared)"

definition updateUserSchema :: zod_schema where
  "updateUserSchema = partial (pick [js ''name''] userSchema_shared)"

subsection \<open>The reusable schemas of the section on advanced features\<close>

definition timestampSchema :: zod_schema where
  "timestampSchema = ZObject
     [ (js ''createdAt'', ZString [Datetime]),
       (js ''updatedAt'', ZString [Datetime]) ]"

definition userSchema_merged :: zod_schema where
  "userSchema_merged =
     merge timestampSchema (ZObject [ (js ''id'', ZString []), (js ''name'', ZString []) ])"

subsection \<open>What a \<open>throw\<close> carries\<close>

text \<open>
  JavaScript throws any value. The classes that the example code, and the sentences about
  it, name are Zod's \<open>ZodError\<close>, the HTTP exceptions of \<open>@nestjs/common\<close>, the built-in
  \<open>Error\<close> and \<open>TypeError\<close>, and the error with which a request of \<open>axios\<close> fails.
  \<open>ThrownValue\<close> is a plain value thrown, \<open>null\<close> and \<open>undefined\<close> among them.
  \<open>ThrownObject\<close> is any other object, with accessor properties or a proxy for
  instance; the code reads one property of what it caught, \<open>errors\<close>, and the object is
  given by what that read does: it yields a value, or it throws.
\<close>

datatype errors_value = Issues "zod_issue list" | Plain jsvalue

record bad_request_body =
  message :: jsstring
  errors :: errors_value

datatype thrown =
    ThrownValue jsvalue
  | ZodError "zod_issue list"
  | BadRequestException bad_request_body
  | ConflictException jsstring
  | NotFoundException jsstring
  | Error jsstring
  | AxiosError jsstring
  | TypeError
  | ThrownObject "thrown + errors_value"

text \<open>
  The property access \<open>error.errors\<close> on what a \<open>catch\<close> clause has caught: on \<open>null\<close> and
  on \<open>undefined\<close> the access itself throws a \<open>TypeError\<close>; a \<open>ZodError\<close> gives its
  issues, a plain object its property of that name, and an instance of one of the other
  classes, or a primitive value, \<open>undefined\<close>.
\<close>

fun errors_of :: "thrown \<Rightarrow> thrown + errors_value" where
  "errors_of (ThrownValue JUndefined) = Inl TypeError"
| "errors_of (ThrownValue JNull) = Inl TypeError"
| "errors_of (ThrownValue (JObject props)) = Inr (Plain (get_prop props (js ''errors'')))"
| "errors_of (ThrownValue v) = Inr (Plain JUndefined)"
| "errors_of (ZodError issues) = Inr (Issues issues)"
| "errors_of (ThrownObject read_errors) = read_errors"
| "errors_of e = Inr (Plain JUndefined)"

text \<open>\<open>schema.parse(value)\<close> returns what \<open>safeParse\<close> finds, or throws a \<open>ZodError\<close>.\<close>

definition parse :: "zod_formats \<Rightarrow> zod_schema \<Rightarrow> jsvalue \<Rightarrow> thrown + jsvalue" where
  "parse fmt schema v =
     (case safeParse fmt schema v of Inl issues \<Rightarrow> Inl (ZodError issues) | Inr out \<Rightarrow> Inr out)"

subsection \<open>apps/backend/src/common/pipes/zod-validation.pipe.ts\<close>

text \<open>
  \<open>ZodValidationPipe.transform\<close>. The pipe holds a schema, of which it calls \<open>parse\<close>
  only; \<open>schema_parse\<close> is that method, which returns the parsed value or throws. In the
  \<open>catch\<close> clause the argument of \<open>new BadRequestException\<close> is evaluated first, and
  what the read of \<open>error.errors\<close> throws is thrown outside every \<open>try\<close> block.
\<close>

definition transform :: "(jsvalue \<Rightarrow> thrown + 'a) \<Rightarrow> jsvalue \<Rightarrow> thrown + 'a" where
  "transform schema_parse v =
     (case schema_parse v of
        Inr parsedValue \<Rightarrow> Inr parsedValue
      | Inl error \<Rightarrow>
          (case errors_of error of
             Inl read_error \<Rightarrow> Inl read_error
           | Inr error_errors \<Rightarrow>
               Inl (BadRequestException
                     \<lparr> message = js ''Validation failed'', errors = error_errors \<rparr>)))"

subsection \<open>apps/backend/src/config/env.validation.ts\<close>




subsection \<open>apps/mobile/src/api/user.api.ts\<close>



section \<open>Notions used in the statements\<close>

text \<open>
  A directory name: not empty, without \<open>/\<close>, and neither \<open>.\<close> nor \<open>..\<close>. The absolute
  path of a list of directory names is \<open>/\<close> followed by the names joined with \<open>/\<close>.
\<close>

definition plain_segment :: "jsstring \<Rightarrow> bool" where
  "plain_segment seg = (seg \<noteq> [] \<and> slash \<notin> set seg \<and> seg \<noteq> js ''.'' \<and> seg \<noteq> js ''..'')"

definition absolute_path :: "jsstring list \<Rightarrow> jsstring" where
  "absolute_path segs = slash # join_path segs"

text \<open>
  The formats are decided by Zod. For the concrete runs below they are fixed on the data of
  the guide's own test: \<open>test@example.com\<close> is an email address, no other string is taken
  for one, and no string is taken for a UUID or a date.
\<close>

definition example_formats :: zod_formats where
  "example_formats =
     \<lparr> is_email = (\<lambda>s. s = js ''test@example.com''),
       is_uuid = (\<lambda>s. False),
       is_datetime = (\<lambda>s. False) \<rparr>"


text \<open>What was thrown is \<open>null\<close> or \<open>undefined\<close>.\<close>

definition nullish :: "thrown \<Rightarrow> bool" where
  "nullish e = (e = ThrownValue JNull \<or> e = ThrownValue JUndefined)"

text \<open>
  A \<open>parse\<close> method that throws \<open>null\<close> on every value, as that of a schema with a
  refinement whose function executes \<open>throw null\<close>.
\<close>

definition parse_throwing_null :: "jsvalue \<Rightarrow> thrown + jsvalue" where
  "parse_throwing_null v = Inl (ThrownValue JNull)"

text \<open>
  The condition that the specification gives for \<open>createUserSchema\<close>, in its words: the
  email is a string in valid email format; the name is a string of length 2 to 50; the
  password is a string of length at least 8 that contains a lowercase letter, an uppercase
  letter and a digit; the age, when present, is an integer from 0 to 150.
\<close>

definition lowercase_letter :: "code_unit \<Rightarrow> bool" where
  "lowercase_letter c = (0x0061 \<le> c \<and> c \<le> 0x007A)"

definition uppercase_letter :: "code_unit \<Rightarrow> bool" where
  "uppercase_letter c = (0x0041 \<le> c \<and> c \<le> 0x005A)"

definition digit :: "code_unit \<Rightarrow> bool" where
  "digit c = (0x0030 \<le> c \<and> c \<le> 0x0039)"

definition claimed_createUser_accepts :: "zod_formats \<Rightarrow> (jsstring \<times> jsvalue) list \<Rightarrow> bool" where
  "claimed_createUser_accepts fmt props =
     ((case get_prop props (js ''email'') of JString e \<Rightarrow> is_email fmt e | _ \<Rightarrow> False)
      \<and> (case get_prop props (js ''name'') of
            JString n \<Rightarrow> 2 \<le> length n \<and> length n \<le> 50
          | _ \<Rightarrow> False)
      \<and> (case get_prop props (js ''password'') of
            JString pw \<Rightarrow>
              8 \<le> length pw \<and> list_ex lowercase_letter pw \<and> list_ex uppercase_letter pw
                \<and> list_ex digit pw
          | _ \<Rightarrow> False)
      \<and> (case get_prop props (js ''age'') of
            JUndefined \<Rightarrow> True
          | JNumber (Fin r) \<Rightarrow> of_int \<lfloor>r\<rfloor> = r \<and> 0 \<le> r \<and> r \<le> 150
          | _ \<Rightarrow> False))"

text \<open>The first line of a string: its code units up to the first line terminator.\<close>

definition first_line :: "jsstring \<Rightarrow> jsstring" where
  "first_line s = takeWhile (\<lambda>c. \<not> line_terminator c) s"

section \<open>Facts about strings\<close>

lemma unat_of_char: "unat (of_char c :: code_unit) = of_char c"
proof -
  have "(of_char c :: code_unit) = word_of_nat (of_char c)"
    by (simp only: of_nat_of_char)
  then have "unat (of_char c :: code_unit) = (of_char c :: nat) mod 2 ^ 16"
    by (simp only: unat_of_nat) simp
  moreover have "(of_char c :: nat) < 2 ^ 16"
    by (rule less_trans [OF nat_of_char_less_256]) simp
  ultimately show ?thesis by simp
qed

lemma of_char16_inject: "(of_char a :: code_unit) = of_char b \<longleftrightarrow> a = b"
proof
  assume "(of_char a :: code_unit) = of_char b"
  then have "unat (of_char a :: code_unit) = unat (of_char b :: code_unit)" by simp
  then show "a = b" by (simp only: unat_of_char of_char_eq_iff)
qed simp

lemma js_inject [simp]: "js a = js b \<longleftrightarrow> a = b"
  unfolding js_def
  by (rule inj_map_eq_map) (simp add: inj_def of_char16_inject)

lemma js_Nil [simp]: "js s = [] \<longleftrightarrow> s = []" "[] = js s \<longleftrightarrow> s = []"
  by (auto simp: js_def)

section \<open>Facts about paths\<close>

lemma split_path_segment:
  "slash \<notin> set seg \<Longrightarrow> split_path (seg @ slash # rest) = seg # split_path rest"
  by (induction seg) auto

lemma split_path_join:
  "segs \<noteq> [] \<Longrightarrow> \<forall>seg\<in>set segs. slash \<notin> set seg \<Longrightarrow>
     split_path (join_path segs @ slash # rest) = segs @ split_path rest"
proof (induction segs rule: join_path.induct)
  case 1
  then show ?case by simp
next
  case (2 seg)
  then show ?case by (simp add: split_path_segment)
next
  case (3 seg next_seg segs)
  then show ?case by (simp add: split_path_segment)
qed

lemma normalize_plain_segments:
  "\<forall>seg\<in>set segs. plain_segment seg \<Longrightarrow>
     normalize_segments up res (segs @ rest) = normalize_segments up (rev segs @ res) rest"
  by (induction segs arbitrary: res) (auto simp: plain_segment_def)

text \<open>
  From a directory two levels below \<open>base\<close>, \<open>path.resolve(__dirname, '../..')\<close> is
  \<open>base\<close>, whatever the working directory.
\<close>

lemma resolve_two_up:
  assumes "\<forall>seg\<in>set (base @ [a, b]). plain_segment seg"
  shows "path_resolve cwd [absolute_path (base @ [a, b]), js ''../..''] = absolute_path base"
proof -
  let ?segs = "base @ [a, b]"
  have noslash: "\<forall>seg\<in>set ?segs. slash \<notin> set seg"
    using assms by (auto simp: plain_segment_def)
  have dots: "js ''../..'' = js ''..'' @ slash # js ''..''" "slash \<notin> set (js ''..'')"
      "hd (js ''../..'') \<noteq> slash"
    by (simp_all add: js_def slash_def)
  have loop: "resolve_loop (rev [absolute_path ?segs, js ''../..''] @ [cwd]) []
      = (slash # join_path ?segs @ slash # js ''..'' @ slash # js ''..'' @ [slash], True)"
    using dots by (simp add: absolute_path_def del: join_path.simps)
  have split: "split_path (join_path ?segs @ slash # js ''..'' @ slash # js ''..'' @ [slash])
      = ?segs @ [js ''..'', js ''..'', []]"
    using split_path_join [OF _ noslash, of "js ''..'' @ slash # js ''..'' @ [slash]"] dots
    by (simp add: split_path_segment del: join_path.simps)
  have "plain_segment a" "plain_segment b"
    using assms by auto
  then have ab: "a \<noteq> js ''..''" "b \<noteq> js ''..''"
    by (auto simp: plain_segment_def)
  have norm: "normalize_segments False [] (?segs @ [js ''..'', js ''..'', []]) = base"
    using normalize_plain_segments [OF assms, of False "[]" "[js ''..'', js ''..'', []]"] ab
    by simp
  show ?thesis
    unfolding path_resolve_def loop using norm
    by (simp add: normalizeString_def split absolute_path_def del: join_path.simps)
qed

section \<open>The configuration files: what they hold, and what they read\<close>

text \<open>
  Claim C7. The build tool configuration objects have the content described: the Metro
  configuration's \<open>watchFolders\<close> are the monorepo root, which is the directory two levels
  above the directory of the configuration file, followed by its \<open>packages/ui\<close> and
  \<open>packages/ts-config\<close> subdirectories; the ESLint flat configuration is \<open>defineConfig\<close>
  applied to exactly four configurations, in the order react-native, react-hooks
  recommended, prettier, react recommended; the Prettier configuration lists exactly five
  plugins.
\<close>

theorem build_configuration_contents:
  "(\<forall>seg\<in>set (base @ [apps, mobile]). plain_segment seg) \<longrightarrow>
     watchFolders (metro_config p (absolute_path (base @ [apps, mobile])))
       = [ absolute_path base,
           absolute_path base @ js ''/packages/ui'',
           absolute_path base @ js ''/packages/ts-config'' ]
     \<and> eslint_config_default defineConfig imports p
       = defineConfig [ reactNativeConfig imports,
                        reactHooks_configs_flat_recommended imports,
                        eslintConfigPrettier imports,
                        react_configs_flat_recommended imports ]
     \<and> prettier_plugins (prettier_config_default p)
       = [ js ''prettier-plugin-css-order'',
           js ''prettier-plugin-organize-attributes'',
           js ''@trivago/prettier-plugin-sort-imports'',
           js ''prettier-plugin-style-order'',
           js ''prettier-plugin-tailwindcss'' ]
     \<and> length (prettier_plugins (prettier_config_default p)) = 5
     \<and> distinct (prettier_plugins (prettier_config_default p))"
proof (intro impI conjI)
  assume plain: "\<forall>seg\<in>set (base @ [apps, mobile]). plain_segment seg"
  show "watchFolders (metro_config p (absolute_path (base @ [apps, mobile])))
       = [ absolute_path base,
           absolute_path base @ js ''/packages/ui'',
           absolute_path base @ js ''/packages/ts-config'' ]"
    by (simp add: metro_config_def monorepoRoot_def resolve_two_up [OF plain])
next
  show "eslint_config_default defineConfig imports p
       = defineConfig [ reactNativeConfig imports,
                        reactHooks_configs_flat_recommended imports,
                        eslintConfigPrettier imports,
                        react_configs_flat_recommended imports ]"
    by (simp add: eslint_config_default_def eslint_config_list_def)
next
  show "prettier_plugins (prettier_config_default p)
       = [ js ''prettier-plugin-css-order'',
           js ''prettier-plugin-organize-attributes'',
           js ''@trivago/prettier-plugin-sort-imports'',
           js ''prettier-plugin-style-order'',
           js ''prettier-plugin-tailwindcss'' ]"
    by (simp add: prettier_config_default_def)
next
  show "length (prettier_plugins (prettier_config_default p)) = 5"
    by (simp add: prettier_config_default_def)
next
  show "distinct (prettier_plugins (prettier_config_default p))"
    by (simp add: prettier_config_default_def)
qed

theorem build_configuration_contents_witness:
  "list_all plain_segment [js ''home'', js ''dev'', js ''moim'', js ''apps'', js ''mobile'']
   \<and> watchFolders (metro_config \<lparr> process_env = Map.empty, process_cwd = js ''/tmp'' \<rparr>
        (js ''/home/dev/moim/apps/mobile''))
       = [ js ''/home/dev/moim'',
           js ''/home/dev/moim/packages/ui'',
           js ''/home/dev/moim/packages/ts-config'' ]
   \<and> eslint_config_default rev
        \<lparr> reactHooks_configs_flat_recommended = js ''react-hooks'',
          reactNativeConfig = js ''react-native'',
          eslintConfigPrettier = js ''prettier'',
          react_configs_flat_recommended = js ''react'' \<rparr>
        \<lparr> process_env = Map.empty, process_cwd = js ''/tmp'' \<rparr>
       = [js ''react'', js ''prettier'', js ''react-hooks'', js ''react-native'']"
proof -
  have plain: "\<forall>seg\<in>set ([js ''home'', js ''dev'', js ''moim''] @ [js ''apps'', js ''mobile'']).
      plain_segment seg"
    by (simp add: plain_segment_def js_def slash_def)
  have dir: "absolute_path ([js ''home'', js ''dev'', js ''moim''] @ [js ''apps'', js ''mobile''])
      = js ''/home/dev/moim/apps/mobile''"
    by (simp add: absolute_path_def js_def slash_def)
  have base: "absolute_path [js ''home'', js ''dev'', js ''moim''] = js ''/home/dev/moim''"
    by (simp add: absolute_path_def js_def slash_def)
  have app: "js ''/home/dev/moim'' @ js ''/packages/ui'' = js ''/home/dev/moim/packages/ui''"
      "js ''/home/dev/moim'' @ js ''/packages/ts-config'' = js ''/home/dev/moim/packages/ts-config''"
    by (simp_all add: js_def)
  from build_configuration_contents
         [of "[js ''home'', js ''dev'', js ''moim'']" "js ''apps''" "js ''mobile''"
             "\<lparr> process_env = Map.empty, process_cwd = js ''/tmp'' \<rparr>" rev
             "\<lparr> reactHooks_configs_flat_recommended = js ''react-hooks'',
                reactNativeConfig = js ''react-native'',
                eslintConfigPrettier = js ''prettier'',
                react_configs_flat_recommended = js ''react'' \<rparr>"]
       plain
  show ?thesis
    by (simp only: dir base app list_all_iff) simp
qed

text \<open>
  Claim C8. In \<open>apps/mobile/babel.config.js\<close> the \<open>path\<close> option of the
  \<open>react-native-dotenv\<close> plugin is the value of \<open>ENV_FILE\<close> whenever that variable is set
  to a non-empty string, and is \<open>.env.dev\<close> whenever \<open>ENV_FILE\<close> is unset or is the empty
  string (the default is chosen with \<open>||\<close>, so the empty string falls back too).
\<close>

theorem babel_dotenv_path:
  "(process_env p (js ''ENV_FILE'') = Some v \<and> v \<noteq> [] \<longrightarrow>
      map_option path (plugin_options (babel_config_exports p) (js ''module:react-native-dotenv''))
        = Some v)
   \<and> (process_env p (js ''ENV_FILE'') = None \<or> process_env p (js ''ENV_FILE'') = Some [] \<longrightarrow>
      map_option path (plugin_options (babel_config_exports p) (js ''module:react-native-dotenv''))
        = Some (js ''.env.dev''))"
  by (auto simp: babel_config_exports_def plugin_options_def or_default_def)

theorem babel_dotenv_path_witness:
  "map_option path (plugin_options
       (babel_config_exports
          \<lparr> process_env = [js ''ENV_FILE'' \<mapsto> js ''.env.prod''], process_cwd = js ''/tmp'' \<rparr>)
       (js ''module:react-native-dotenv'')) = Some (js ''.env.prod'')
   \<and> map_option path (plugin_options
       (babel_config_exports
          \<lparr> process_env = [js ''ENV_FILE'' \<mapsto> []], process_cwd = js ''/tmp'' \<rparr>)
       (js ''module:react-native-dotenv'')) = Some (js ''.env.dev'')
   \<and> map_option path (plugin_options
       (babel_config_exports \<lparr> process_env = Map.empty, process_cwd = js ''/tmp'' \<rparr>)
       (js ''module:react-native-dotenv'')) = Some (js ''.env.dev'')"
proof -
  let ?prod = "\<lparr> process_env = [js ''ENV_FILE'' \<mapsto> js ''.env.prod''], process_cwd = js ''/tmp'' \<rparr>"
  let ?blank = "\<lparr> process_env = [js ''ENV_FILE'' \<mapsto> []], process_cwd = js ''/tmp'' \<rparr>"
  let ?unset = "\<lparr> process_env = Map.empty, process_cwd = js ''/tmp'' \<rparr>"
  have set_prod: "process_env ?prod (js ''ENV_FILE'') = Some (js ''.env.prod'') \<and> js ''.env.prod'' \<noteq> []"
    by simp
  have set_blank: "process_env ?blank (js ''ENV_FILE'') = None \<or> process_env ?blank (js ''ENV_FILE'') = Some []"
    by simp
  have unset: "process_env ?unset (js ''ENV_FILE'') = None \<or> process_env ?unset (js ''ENV_FILE'') = Some []"
    by simp
  from babel_dotenv_path [of ?prod "js ''.env.prod''"]
       babel_dotenv_path [of ?blank "[]"]
       babel_dotenv_path [of ?unset "[]"]
       set_prod set_blank unset
  show ?thesis by blast
qed

text \<open>
  Claim C1, as stated: for every pair of process environments each configuration file
  exports the same value; in particular the Babel configuration does not vary with any
  environment variable. It fails: the Babel configuration loaded with \<open>ENV_FILE\<close> unset
  differs from the one loaded with \<open>ENV_FILE=.env.prod\<close>.
\<close>

theorem babel_config_varies_with_env:
  "babel_config_exports \<lparr> process_env = Map.empty, process_cwd = js ''/tmp'' \<rparr>
     \<noteq> babel_config_exports
         \<lparr> process_env = [js ''ENV_FILE'' \<mapsto> js ''.env.prod''], process_cwd = js ''/tmp'' \<rparr>"
  by (simp add: babel_config_exports_def or_default_def)

text \<open>
  Claim C1, amended. Of the process environment the configuration files read one
  variable, \<open>ENV_FILE\<close>, and only \<open>babel.config.js\<close> reads it: two processes in which
  \<open>ENV_FILE\<close> has the same value, or is unset or empty in both, get the same Babel
  configuration, and two Babel configurations differ at most in the \<open>path\<close> option of the
  dotenv plugin. The \<open>config\<close> object of the Metro configuration is the same in two
  processes with the same working directory, whatever their environments, and so is the
  value the file exports if the library's \<open>getDefaultConfig\<close> returns the same in both;
  the ESLint export (for given imports) and the Prettier export are the same in all
  processes.
\<close>

theorem configuration_environment_dependence:
  "(process_env p (js ''ENV_FILE'') = process_env q (js ''ENV_FILE'')
      \<or> (process_env p (js ''ENV_FILE'') \<in> {None, Some []}
          \<and> process_env q (js ''ENV_FILE'') \<in> {None, Some []})
     \<longrightarrow> babel_config_exports p = babel_config_exports q)
   \<and> presets (babel_config_exports p) = presets (babel_config_exports q)
   \<and> map (\<lambda>(name, opts). (name, opts\<lparr>path := []\<rparr>)) (plugins (babel_config_exports p))
       = map (\<lambda>(name, opts). (name, opts\<lparr>path := []\<rparr>)) (plugins (babel_config_exports q))
   \<and> (process_cwd p = process_cwd q \<longrightarrow> metro_config p dirname = metro_config q dirname)
   \<and> (process_cwd p = process_cwd q \<and> getDefaultConfig p dirname = getDefaultConfig q dirname
        \<longrightarrow> metro_config_exports mergeConfig getDefaultConfig p dirname
          = metro_config_exports mergeConfig getDefaultConfig q dirname)
   \<and> eslint_config_default defineConfig imports p = eslint_config_default defineConfig imports q
   \<and> prettier_config_default p = prettier_config_default q"
proof -
  have babel: "babel_config_exports p = babel_config_exports q"
    if "process_env p (js ''ENV_FILE'') = process_env q (js ''ENV_FILE'')
        \<or> (process_env p (js ''ENV_FILE'') \<in> {None, Some []}
            \<and> process_env q (js ''ENV_FILE'') \<in> {None, Some []})"
    using that by (auto simp: babel_config_exports_def or_default_def)
  have metro: "metro_config p dirname = metro_config q dirname" if "process_cwd p = process_cwd q"
    using that by (simp add: metro_config_def monorepoRoot_def)
  have exports: "metro_config_exports mergeConfig getDefaultConfig p dirname
          = metro_config_exports mergeConfig getDefaultConfig q dirname"
    if "process_cwd p = process_cwd q \<and> getDefaultConfig p dirname = getDefaultConfig q dirname"
    using that metro by (simp add: metro_config_exports_def)
  have rest: "presets (babel_config_exports p) = presets (babel_config_exports q)"
      "map (\<lambda>(name, opts). (name, opts\<lparr>path := []\<rparr>)) (plugins (babel_config_exports p))
       = map (\<lambda>(name, opts). (name, opts\<lparr>path := []\<rparr>)) (plugins (babel_config_exports q))"
      "eslint_config_default defineConfig imports p = eslint_config_default defineConfig imports q"
      "prettier_config_default p = prettier_config_default q"
    by (simp_all add: babel_config_exports_def eslint_config_default_def prettier_config_default_def)
  from babel metro exports rest show ?thesis
    by (intro conjI impI)
qed

theorem configuration_environment_dependence_witness:
  "babel_config_exports
      \<lparr> process_env = [js ''ENV_FILE'' \<mapsto> js ''.env.prod'', js ''NODE_ENV'' \<mapsto> js ''production''],
        process_cwd = js ''/tmp'' \<rparr>
     = babel_config_exports
         \<lparr> process_env = [js ''ENV_FILE'' \<mapsto> js ''.env.prod''], process_cwd = js ''/tmp'' \<rparr>
   \<and> babel_config_exports
      \<lparr> process_env = [js ''ENV_FILE'' \<mapsto> []], process_cwd = js ''/tmp'' \<rparr>
     = babel_config_exports \<lparr> process_env = Map.empty, process_cwd = js ''/home'' \<rparr>
   \<and> metro_config
      \<lparr> process_env = [js ''ENV_FILE'' \<mapsto> js ''.env.prod''], process_cwd = js ''/tmp'' \<rparr>
      (js ''/home/dev/moim/apps/mobile'')
     = metro_config \<lparr> process_env = Map.empty, process_cwd = js ''/tmp'' \<rparr>
         (js ''/home/dev/moim/apps/mobile'')
   \<and> metro_config_exports (\<lambda>defaults config. config) (\<lambda>p dirname. metro_config p dirname)
      \<lparr> process_env = [js ''ENV_FILE'' \<mapsto> js ''.env.prod''], process_cwd = js ''/tmp'' \<rparr>
      (js ''/home/dev/moim/apps/mobile'')
     = metro_config_exports (\<lambda>defaults config. config) (\<lambda>p dirname. metro_config p dirname)
         \<lparr> process_env = Map.empty, process_cwd = js ''/tmp'' \<rparr>
         (js ''/home/dev/moim/apps/mobile'')"
proof -
  let ?p1 = "\<lparr> process_env = [js ''ENV_FILE'' \<mapsto> js ''.env.prod'', js ''NODE_ENV'' \<mapsto> js ''production''],
        process_cwd = js ''/tmp'' \<rparr>"
  let ?q1 = "\<lparr> process_env = [js ''ENV_FILE'' \<mapsto> js ''.env.prod''], process_cwd = js ''/tmp'' \<rparr>"
  let ?p2 = "\<lparr> process_env = [js ''ENV_FILE'' \<mapsto> []], process_cwd = js ''/tmp'' \<rparr>"
  let ?q2 = "\<lparr> process_env = Map.empty, process_cwd = js ''/home'' \<rparr>"
  let ?q3 = "\<lparr> process_env = Map.empty, process_cwd = js ''/tmp'' \<rparr>"
  let ?dir = "js ''/home/dev/moim/apps/mobile''"
  let ?defaults = "\<lambda>(p :: node_process) dirname. metro_config p dirname"
  have same: "process_env ?p1 (js ''ENV_FILE'') = process_env ?q1 (js ''ENV_FILE'')"
    by simp
  have falsy: "process_env ?p2 (js ''ENV_FILE'') \<in> {None, Some []}
      \<and> process_env ?q2 (js ''ENV_FILE'') \<in> {None, Some []}"
    by simp
  have cwd: "process_cwd ?q1 = process_cwd ?q3"
    by simp
  note at_q1_q3 =
    configuration_environment_dependence
      [where p = ?q1 and q = ?q3 and dirname = ?dir and getDefaultConfig = ?defaults]
  have config: "metro_config ?q1 ?dir = metro_config ?q3 ?dir"
    by (rule at_q1_q3 [THEN conjunct2, THEN conjunct2, THEN conjunct2, THEN conjunct1,
          rule_format, OF cwd])
  have "babel_config_exports ?p1 = babel_config_exports ?q1"
    by (rule configuration_environment_dependence [where p = ?p1 and q = ?q1,
          THEN conjunct1, rule_format, OF disjI1, OF same])
  moreover have "babel_config_exports ?p2 = babel_config_exports ?q2"
    by (rule configuration_environment_dependence [where p = ?p2 and q = ?q2,
          THEN conjunct1, rule_format, OF disjI2, OF falsy])
  moreover note config
  moreover have "metro_config_exports (\<lambda>defaults config. config) ?defaults ?q1 ?dir
      = metro_config_exports (\<lambda>defaults config. config) ?defaults ?q3 ?dir"
    by (rule at_q1_q3 [THEN conjunct2, THEN conjunct2, THEN conjunct2, THEN conjunct2,
          THEN conjunct1, rule_format, OF conjI, OF cwd config])
  ultimately show ?thesis
    by (intro conjI)
qed

section \<open>The schemas of the guide\<close>

text \<open>
  Claim C4, as stated: every user schema shown has a \<open>password\<close> field alongside \<open>id\<close>,
  \<open>email\<close>, \<open>name\<close> and the timestamps. It fails: the shared \<open>userSchema\<close> has no
  \<open>password\<close> field.
\<close>

theorem userSchema_has_no_password:
  "js ''password'' \<notin> set (shape_keys userSchema_shared)"
  by (simp add: userSchema_shared_def)

text \<open>
  Claim C4, amended. None of the three \<open>userSchema\<close> examples has a \<open>password\<close> field:
  the one of the mobile app has exactly the fields \<open>id\<close>, \<open>email\<close>, \<open>name\<close>,
  \<open>createdAt\<close>; the shared one exactly \<open>id\<close>, \<open>email\<close>, \<open>name\<close>, \<open>createdAt\<close>,
  \<open>updatedAt\<close>; the merged one of the section on reusable schemas exactly \<open>id\<close>, \<open>name\<close>,
  \<open>createdAt\<close>, \<open>updatedAt\<close>. The two \<open>createUserSchema\<close> examples do have a
  \<open>password\<close> field, and have neither \<open>id\<close> nor a timestamp: the DTO of the backend has
  exactly \<open>email\<close>, \<open>name\<close>, \<open>password\<close>, \<open>age\<close>, and the shared \<open>createUserSchema\<close>
  exactly \<open>email\<close>, \<open>name\<close>, \<open>password\<close>.
\<close>

theorem user_schema_fields:
  "shape_keys userSchema_mobile = [js ''id'', js ''email'', js ''name'', js ''createdAt'']
   \<and> shape_keys userSchema_shared
       = [js ''id'', js ''email'', js ''name'', js ''createdAt'', js ''updatedAt'']
   \<and> shape_keys userSchema_merged = [js ''id'', js ''name'', js ''createdAt'', js ''updatedAt'']
   \<and> js ''password'' \<notin> set (shape_keys userSchema_mobile)
   \<and> js ''password'' \<notin> set (shape_keys userSchema_shared)
   \<and> js ''password'' \<notin> set (shape_keys userSchema_merged)
   \<and> shape_keys createUserSchema = [js ''email'', js ''name'', js ''password'', js ''age'']
   \<and> shape_keys createUserSchema_shared = [js ''email'', js ''name'', js ''password'']"
  by (simp add: userSchema_mobile_def userSchema_shared_def userSchema_merged_def
        timestampSchema_def createUserSchema_def createUserSchema_shared_def
        List.map_filter_simps)

section \<open>Running the schema of the backend\<close>

lemmas run_createUserSchema =
  safeParse_def parse_def issues_at_def List.map_filter_simps regex_test_def password_regex_def
  get_prop_def has_prop_def example_formats_def line_terminator_def createUserSchema_def js_def

section \<open>The validation pipe and the exceptions of the example code\<close>

lemma errors_of_throws:
  "errors_of error = Inl e \<Longrightarrow> (nullish error \<and> e = TypeError) \<or> error = ThrownObject (Inl e)"
  by (cases error rule: errors_of.cases) (simp_all add: nullish_def)

text \<open>
  Claim C9, as stated: for every schema and every input value \<open>transform\<close> returns the
  result of \<open>parse\<close> or throws a \<open>BadRequestException\<close>, and no exception of another type
  leaves it. It fails: when \<open>parse\<close> throws \<open>null\<close>, reading \<open>error.errors\<close> in the
  \<open>catch\<close> clause throws a \<open>TypeError\<close>, and that is what leaves \<open>transform\<close>.
\<close>

theorem transform_throws_type_error:
  "transform parse_throwing_null (JString (js ''x'')) = Inl TypeError"
  by (simp add: transform_def parse_throwing_null_def)

text \<open>
  Claim C9, amended. For every \<open>parse\<close> method and every input value:
  \<^item> when \<open>parse\<close> returns, \<open>transform\<close> returns exactly that result;
  \<^item> when \<open>parse\<close> throws a value of which the property \<open>errors\<close> can be read,
    \<open>transform\<close> throws a \<open>BadRequestException\<close> whose body has the message
    \<open>Validation failed\<close> and, as \<open>errors\<close>, the value read (and so nothing else leaves
    \<open>transform\<close> then);
  \<^item> in particular, when the schema rejects the value, so that \<open>parse\<close> throws a
    \<open>ZodError\<close>, the \<open>errors\<close> of the body are the issues of that \<open>ZodError\<close>;
  \<^item> \<open>transform\<close> throws only when \<open>parse\<close> threw;
  \<^item> the property \<open>errors\<close> can be read of every value thrown except \<open>null\<close> and
    \<open>undefined\<close>, on which the read throws a \<open>TypeError\<close>, and objects whose property
    \<open>errors\<close> throws when it is read.
\<close>

theorem transform_returns_or_bad_request:
  "(\<forall>parsedValue. schema_parse v = Inr parsedValue \<longrightarrow> transform schema_parse v = Inr parsedValue)
   \<and> (\<forall>error error_errors. schema_parse v = Inl error \<and> errors_of error = Inr error_errors \<longrightarrow>
         transform schema_parse v
           = Inl (BadRequestException
                   \<lparr> message = js ''Validation failed'', errors = error_errors \<rparr>))
   \<and> (\<forall>issues. schema_parse v = Inl (ZodError issues) \<longrightarrow>
         transform schema_parse v
           = Inl (BadRequestException
                   \<lparr> message = js ''Validation failed'', errors = Issues issues \<rparr>))
   \<and> (\<forall>e. transform schema_parse v = Inl e \<longrightarrow> isl (schema_parse v))
   \<and> (\<forall>error e. errors_of error = Inl e \<longrightarrow>
         (nullish error \<and> e = TypeError) \<or> error = ThrownObject (Inl e))"
proof -
  have returned: "transform schema_parse v = Inr parsedValue"
    if "schema_parse v = Inr parsedValue" for parsedValue
    using that by (simp add: transform_def)
  have wrapped: "transform schema_parse v
      = Inl (BadRequestException \<lparr> message = js ''Validation failed'', errors = error_errors \<rparr>)"
    if "schema_parse v = Inl error \<and> errors_of error = Inr error_errors" for error error_errors
    using that by (simp add: transform_def)
  have rejected: "transform schema_parse v
      = Inl (BadRequestException \<lparr> message = js ''Validation failed'', errors = Issues issues \<rparr>)"
    if "schema_parse v = Inl (ZodError issues)" for issues
    using that by (simp add: transform_def)
  have only: "isl (schema_parse v)" if "transform schema_parse v = Inl e" for e
    using that by (cases "schema_parse v") (simp_all add: transform_def)
  have readable: "(nullish error \<and> e = TypeError) \<or> error = ThrownObject (Inl e)"
    if "errors_of error = Inl e" for error e
    using that by (rule errors_of_throws)
  from returned wrapped rejected only readable show ?thesis
    by (intro conjI allI impI)
qed

theorem transform_returns_or_bad_request_witness:
  "transform (parse example_formats createUserSchema)
      (JObject [ (js ''email'', JString (js ''test@example.com'')),
                 (js ''name'', JString (js ''Test User'')),
                 (js ''password'', JString (js ''Passw0rd'')),
                 (js ''role'', JString (js ''admin'')) ])
     = Inr (JObject [ (js ''email'', JString (js ''test@example.com'')),
                      (js ''name'', JString (js ''Test User'')),
                      (js ''password'', JString (js ''Passw0rd'')) ])
   \<and> transform (parse example_formats createUserSchema)
      (JObject [ (js ''email'', JString (js ''invalid-email'')),
                 (js ''name'', JString (js ''Test User'')),
                 (js ''password'', JString (js ''Passw0rd'')) ])
     = Inl (BadRequestException
             \<lparr> message = js ''Validation failed'',
               errors = Issues [ \<lparr> issue_code = invalid_string, issue_path = [js ''email''],
                                  issue_message = Some msg_email_format \<rparr> ] \<rparr>)
   \<and> isl (parse example_formats createUserSchema
      (JObject [ (js ''email'', JString (js ''invalid-email'')),
                 (js ''name'', JString (js ''Test User'')),
                 (js ''password'', JString (js ''Passw0rd'')) ]))
   \<and> errors_of (ThrownValue JUndefined) = Inl TypeError
   \<and> nullish (ThrownValue JUndefined)"
proof -
  let ?pipe = "parse example_formats createUserSchema"
  let ?good = "JObject [ (js ''email'', JString (js ''test@example.com'')),
                 (js ''name'', JString (js ''Test User'')),
                 (js ''password'', JString (js ''Passw0rd'')),
                 (js ''role'', JString (js ''admin'')) ]"
  let ?bad = "JObject [ (js ''email'', JString (js ''invalid-email'')),
                 (js ''name'', JString (js ''Test User'')),
                 (js ''password'', JString (js ''Passw0rd'')) ]"
  let ?issues = "[ \<lparr> issue_code = invalid_string, issue_path = [js ''email''],
                    issue_message = Some msg_email_format \<rparr> ]"
  have accepted: "?pipe ?good
      = Inr (JObject [ (js ''email'', JString (js ''test@example.com'')),
                       (js ''name'', JString (js ''Test User'')),
                       (js ''password'', JString (js ''Passw0rd'')) ])"
    by (simp add: run_createUserSchema)
  have rejected: "?pipe ?bad = Inl (ZodError ?issues)"
    by (simp add: run_createUserSchema)
  have read: "?pipe ?bad = Inl (ZodError ?issues) \<and> errors_of (ZodError ?issues) = Inr (Issues ?issues)"
    using rejected by simp
  have unreadable: "errors_of (ThrownValue JUndefined) = Inl TypeError"
    by simp
  note at_good = transform_returns_or_bad_request [of ?pipe ?good]
  note at_bad = transform_returns_or_bad_request [of ?pipe ?bad]
  have returned: "transform ?pipe ?good
      = Inr (JObject [ (js ''email'', JString (js ''test@example.com'')),
                       (js ''name'', JString (js ''Test User'')),
                       (js ''password'', JString (js ''Passw0rd'')) ])"
    by (rule at_good [THEN conjunct1, rule_format, OF accepted])
  have wrapped: "transform ?pipe ?bad
      = Inl (BadRequestException \<lparr> message = js ''Validation failed'', errors = Issues ?issues \<rparr>)"
    by (rule at_bad [THEN conjunct2, THEN conjunct1, rule_format, OF read])
  have thrown: "transform ?pipe ?bad
      = Inl (BadRequestException \<lparr> message = js ''Validation failed'', errors = Issues ?issues \<rparr>)"
    by (rule at_bad [THEN conjunct2, THEN conjunct2, THEN conjunct1, rule_format, OF rejected])
  have parse_threw: "isl (?pipe ?bad)"
    by (rule at_bad [THEN conjunct2, THEN conjunct2, THEN conjunct2, THEN conjunct1,
          rule_format, OF thrown])
  have "(nullish (ThrownValue JUndefined) \<and> TypeError = TypeError)
      \<or> ThrownValue JUndefined = ThrownObject (Inl TypeError)"
    by (rule at_bad [THEN conjunct2, THEN conjunct2, THEN conjunct2, THEN conjunct2,
          rule_format, OF unreadable])
  then have is_nullish: "nullish (ThrownValue JUndefined)"
    by simp
  from wrapped show ?thesis
    by (intro conjI) (rule returned thrown parse_threw unreadable is_nullish)+
qed




section \<open>What \<open>createUserSchema\<close> accepts\<close>

subsection \<open>The pattern of the password\<close>

text \<open>
  \<^verbatim>\<open>.*\<close> followed by a class that holds no line terminator finds a code unit of the class
  exactly when the first line of the input has one.
\<close>

lemma match_one_iff:
  "(match_term (One cl) j t \<noteq> []) = (t \<noteq> [] \<and> class_matches cl (hd t))"
  by (cases t) auto

lemma star_any_ends:
  assumes "\<And>c. class_matches cl c \<Longrightarrow> \<not> line_terminator c"
  shows "(\<exists>st\<in>set (star_matches AnyChar i s). snd st \<noteq> [] \<and> class_matches cl (hd (snd st)))
     = list_ex (class_matches cl) (first_line s)"
proof (induction s arbitrary: i)
  case Nil
  then show ?case by (simp add: first_line_def)
next
  case (Cons c cs)
  show ?case
  proof (cases "line_terminator c")
    case True
    with assms [of c] show ?thesis
      by (auto simp: first_line_def)
  next
    case False
    with Cons.IH [of "Suc i"] show ?thesis
      by (auto simp: first_line_def)
  qed
qed

lemma star_any_then_class:
  assumes "\<And>c. class_matches cl c \<Longrightarrow> \<not> line_terminator c"
  shows "(match_seq [Star AnyChar, One cl] i s \<noteq> []) = list_ex (class_matches cl) (first_line s)"
proof -
  have "(match_seq [Star AnyChar, One cl] i s \<noteq> [])
      = (\<exists>st\<in>set (star_matches AnyChar i s). match_term (One cl) (fst st) (snd st) \<noteq> [])"
    by (auto simp: split_def)
  then show ?thesis
    by (simp only: match_one_iff star_any_ends [OF assms])
qed

lemma match_lookahead:
  "(match_seq (Lookahead r # ts) i s \<noteq> []) = (match_seq r i s \<noteq> [] \<and> match_seq ts i s \<noteq> [])"
  by simp

lemma regex_test_anchored:
  "regex_test (StartAnchor # ts) s = (match_seq ts 0 s \<noteq> [])"
proof -
  have "list_ex (\<lambda>k. match_seq (StartAnchor # ts) k (drop k s) \<noteq> []) [0..<Suc n]
      = (match_seq ts 0 s \<noteq> [])" for n
    by (induction n) (auto simp: list_ex_iff)
  then show ?thesis
    by (simp only: regex_test_def)
qed

lemma password_regex_test:
  "regex_test password_regex s
     = (list_ex lowercase_letter (first_line s) \<and> list_ex uppercase_letter (first_line s)
        \<and> list_ex digit (first_line s))"
proof -
  have lower: "class_matches (Range 0x0061 0x007A) = lowercase_letter"
    and upper: "class_matches (Range 0x0041 0x005A) = uppercase_letter"
    and dig: "class_matches Digit = digit"
    by (auto simp: fun_eq_iff lowercase_letter_def uppercase_letter_def digit_def)
  have no_lt: "\<not> line_terminator c"
    if "lowercase_letter c \<or> uppercase_letter c \<or> digit c" for c
    using that
    by (auto simp: lowercase_letter_def uppercase_letter_def digit_def line_terminator_def)
  have ahead: "(match_seq [Star AnyChar, One cl] 0 s \<noteq> []) = list_ex (class_matches cl) (first_line s)"
    if "cl \<in> {Range 0x0061 0x007A, Range 0x0041 0x005A, Digit}" for cl
  proof (rule star_any_then_class)
    fix c assume "class_matches cl c"
    with that show "\<not> line_terminator c"
      using no_lt [of c] lower upper dig by auto
  qed
  show ?thesis
    unfolding password_regex_def regex_test_anchored match_lookahead
    by (simp only: ahead insertI1 insertI2 lower upper dig) simp
qed

subsection \<open>The objects accepted\<close>

lemma issues_at_empty: "(issues_at p found = []) = list_all (\<lambda>x. x = None) found"
  by (induction found) (auto simp: issues_at_def List.map_filter_simps split: option.splits)

lemma string_schema_accepts:
  "(schema_issues fmt p (ZString checks) v = [])
     = (case v of JString s \<Rightarrow> list_all (\<lambda>c. string_check_issue fmt s c = None) checks | _ \<Rightarrow> False)"
  by (cases v) (simp_all add: issues_at_empty list_all_iff)

lemma number_schema_accepts:
  "(schema_issues fmt p (ZNumber checks) v = [])
     = (case v of
          JNumber n \<Rightarrow> n \<noteq> NaN \<and> list_all (\<lambda>c. number_check_issue n c = None) checks
        | _ \<Rightarrow> False)"
  by (cases v) (simp_all add: issues_at_empty list_all_iff)

lemma safeParse_accepts: "(\<exists>out. safeParse fmt schema v = Inr out) = (schema_issues fmt [] schema v = [])"
  by (simp add: safeParse_def split: list.splits)

lemma list_ex_first_line: "list_ex P (first_line s) \<Longrightarrow> list_ex P s"
  unfolding first_line_def list_ex_iff by (blast dest: set_takeWhileD)

lemma first_line_whole: "\<not> list_ex line_terminator s \<Longrightarrow> first_line s = s"
  unfolding first_line_def list_ex_iff by (simp add: takeWhile_eq_all_conv)

text \<open>
  What the schema accepts: the objects that meet the condition of the specification and
  whose password has a lowercase letter, an uppercase letter and a digit on its first line.
\<close>

lemma createUserSchema_accepts_iff:
  "(\<exists>out. safeParse fmt createUserSchema (JObject props) = Inr out)
     = (claimed_createUser_accepts fmt props
        \<and> (case get_prop props (js ''password'') of
              JString pw \<Rightarrow>
                list_ex lowercase_letter (first_line pw) \<and> list_ex uppercase_letter (first_line pw)
                  \<and> list_ex digit (first_line pw)
            | _ \<Rightarrow> False))"
proof -
  have email: "(schema_issues fmt [js ''email''] (ZString [Email (Some msg_email_format)])
        (get_prop props (js ''email'')) = [])
      = (case get_prop props (js ''email'') of JString e \<Rightarrow> is_email fmt e | _ \<Rightarrow> False)"
    by (simp add: string_schema_accepts del: schema_issues.simps split: jsvalue.splits)
  have name: "(schema_issues fmt [js ''name'']
        (ZString [MinLength 2 (Some msg_name_min), MaxLength 50 (Some msg_name_max)])
        (get_prop props (js ''name'')) = [])
      = (case get_prop props (js ''name'') of
           JString n \<Rightarrow> 2 \<le> length n \<and> length n \<le> 50 | _ \<Rightarrow> False)"
    by (simp add: string_schema_accepts not_less del: schema_issues.simps split: jsvalue.splits)
  have password: "(schema_issues fmt [js ''password'']
        (ZString [MinLength 8 (Some msg_password_min), Regex password_regex (Some msg_password_regex)])
        (get_prop props (js ''password'')) = [])
      = (case get_prop props (js ''password'') of
           JString pw \<Rightarrow>
             8 \<le> length pw \<and> list_ex lowercase_letter (first_line pw)
               \<and> list_ex uppercase_letter (first_line pw) \<and> list_ex digit (first_line pw)
         | _ \<Rightarrow> False)"
    by (simp add: string_schema_accepts password_regex_test not_less del: schema_issues.simps
          split: jsvalue.splits)
  have age: "(schema_issues fmt [js ''age''] (ZOptional (ZNumber [IsInt, NumMin 0, NumMax 150]))
        (get_prop props (js ''age'')) = [])
      = (case get_prop props (js ''age'') of
           JUndefined \<Rightarrow> True
         | JNumber (Fin r) \<Rightarrow> of_int \<lfloor>r\<rfloor> = r \<and> 0 \<le> r \<and> r \<le> 150
         | _ \<Rightarrow> False)"
    by (simp add: number_schema_accepts not_less del: schema_issues.simps(2)
          split: jsvalue.splits jsnumber.splits)
  have "(schema_issues fmt [] createUserSchema (JObject props) = [])
      = ((schema_issues fmt [js ''email''] (ZString [Email (Some msg_email_format)])
            (get_prop props (js ''email'')) = [])
         \<and> (schema_issues fmt [js ''name'']
              (ZString [MinLength 2 (Some msg_name_min), MaxLength 50 (Some msg_name_max)])
              (get_prop props (js ''name'')) = [])
         \<and> (schema_issues fmt [js ''password'']
              (ZString [MinLength 8 (Some msg_password_min),
                        Regex password_regex (Some msg_password_regex)])
              (get_prop props (js ''password'')) = [])
         \<and> (schema_issues fmt [js ''age''] (ZOptional (ZNumber [IsInt, NumMin 0, NumMax 150]))
              (get_prop props (js ''age'')) = []))"
    by (simp add: createUserSchema_def del: schema_issues.simps(1,2,4))
  then show ?thesis
    unfolding safeParse_accepts email name password age claimed_createUser_accepts_def
    by (auto split: jsvalue.splits dest: list_ex_first_line)
qed

lemma createUserSchema_accepts_only_if:
  "safeParse fmt createUserSchema (JObject props) = Inr out \<Longrightarrow> claimed_createUser_accepts fmt props"
  using createUserSchema_accepts_iff [of fmt props] by blast

lemma createUserSchema_accepts_one_line:
  assumes "get_prop props (js ''password'') = JString pw" and "\<not> list_ex line_terminator pw"
  shows "(\<exists>out. safeParse fmt createUserSchema (JObject props) = Inr out)
     = claimed_createUser_accepts fmt props"
  unfolding createUserSchema_accepts_iff
  using assms by (auto simp: claimed_createUser_accepts_def first_line_whole)

text \<open>
  Claim C10: \<open>createUserSchema\<close> accepts an input object if and only if the email is a
  string in valid email format, the name a string of length 2 to 50, the password a string
  of length at least 8 that contains a lowercase letter, an uppercase letter and a digit,
  and the age, when present, an integer from 0 to 150. The schema does not do this: the
  password \<open>Password\<close>, line feed, \<open>1\<close> has length 10 and contains all three kinds of
  character, so that the object below meets the condition, and the schema rejects it,
  with the message that the password must contain upper and lower case letters and a
  digit. In the pattern \<open>.\<close> does not match a line terminator, and the lookaheads see the
  first line of the password only.
\<close>

theorem createUserSchema_rejects_digit_after_line_feed:
  "claimed_createUser_accepts example_formats
      [ (js ''email'', JString (js ''test@example.com'')),
        (js ''name'', JString (js ''Test User'')),
        (js ''password'', JString (js ''Password'' @ [0x000A] @ js ''1'')) ]
   \<and> safeParse example_formats createUserSchema
      (JObject [ (js ''email'', JString (js ''test@example.com'')),
                 (js ''name'', JString (js ''Test User'')),
                 (js ''password'', JString (js ''Password'' @ [0x000A] @ js ''1'')) ])
     = Inl [ \<lparr> issue_code = invalid_string, issue_path = [js ''password''],
                issue_message = Some msg_password_regex \<rparr> ]"
  by (simp add: claimed_createUser_accepts_def lowercase_letter_def uppercase_letter_def
        digit_def run_createUserSchema)

end
